theory Spec2Isabelle
  imports Main
begin

section \<open>stan\_colab\_utils: extension-driven persistence and the cached model builder\<close>

text \<open>
  The module \<^verbatim>\<open>stan_colab_utils.py\<close> has six functions of its own: \<^verbatim>\<open>install\<close>,
  \<^verbatim>\<open>_read\<close>, \<^verbatim>\<open>read\<close>, \<^verbatim>\<open>_save\<close>, \<^verbatim>\<open>save\<close> and \<^verbatim>\<open>StanModel\<close>. Everything else it
  touches is a library: \<^verbatim>\<open>os.path\<close>, the four modules with an \<^verbatim>\<open>open\<close> function
  (\<^verbatim>\<open>io\<close>, \<^verbatim>\<open>gzip\<close>, \<^verbatim>\<open>lzma\<close>, \<^verbatim>\<open>bz2\<close>), \<^verbatim>\<open>pickle\<close>, \<^verbatim>\<open>pip\<close> and \<^verbatim>\<open>pystan\<close>. The libraries
  are parameters of the model (the record \<open>env\<close> below); the operating system is a small
  explicit file system.
\<close>

subsection \<open>Exceptions\<close>

text \<open>
  The exception classes that the libraries raise on the paths of this module. The clause
  \<^verbatim>\<open>except (OSError, TypeError)\<close> catches instances of subclasses too, so the model
  records which classes derive from \<^verbatim>\<open>OSError\<close>: the file errors of the operating
  system and \<^verbatim>\<open>gzip.BadGzipFile\<close>. \<^verbatim>\<open>pickle.UnpicklingError\<close>, \<^verbatim>\<open>EOFError\<close> and
  \<^verbatim>\<open>lzma.LZMAError\<close> derive from \<^verbatim>\<open>Exception\<close> directly, and \<^verbatim>\<open>UnboundLocalError\<close> from
  \<^verbatim>\<open>NameError\<close>.
\<close>

datatype py_error =
    OSError
  | FileNotFoundError
  | IsADirectoryError
  | PermissionError
  | BadGzipFile
  | TypeError
  | ValueError
  | UnpicklingError
  | PicklingError
  | EOFError
  | LZMAError
  | ModuleNotFoundError
  | UnboundLocalError
  | OtherError string

fun isinstance_OSError :: "py_error \<Rightarrow> bool" where
  "isinstance_OSError OSError = True"
| "isinstance_OSError FileNotFoundError = True"
| "isinstance_OSError IsADirectoryError = True"
| "isinstance_OSError PermissionError = True"
| "isinstance_OSError BadGzipFile = True"
| "isinstance_OSError _ = False"

fun isinstance_TypeError :: "py_error \<Rightarrow> bool" where
  "isinstance_TypeError TypeError = True"
| "isinstance_TypeError _ = False"

subsection \<open>Paths and \<^verbatim>\<open>os.path.splitext\<close>\<close>

type_synonym path = string
type_synonym bytes = string

text \<open>\<^verbatim>\<open>str.rfind\<close> of one character: the last index holding it, or \<open>-1\<close>.\<close>

fun rfind :: "char \<Rightarrow> string \<Rightarrow> int" where
  "rfind c [] = -1"
| "rfind c (x # xs) = (let r = rfind c xs in if 0 \<le> r then r + 1 else if x = c then 0 else -1)"

text \<open>
  The loop of \<^verbatim>\<open>genericpath._splitext\<close> that skips the leading dots of the file name:
  it runs \<^verbatim>\<open>filenameIndex\<close> over the indices before the last dot and answers at the
  first character that is not a dot.
\<close>

fun has_name_before_dot :: "string \<Rightarrow> nat list \<Rightarrow> bool" where
  "has_name_before_dot p [] = False"
| "has_name_before_dot p (i # rest) =
     (if p ! i \<noteq> CHR ''.'' then True else has_name_before_dot p rest)"

text \<open>
  \<^verbatim>\<open>os.path.splitext\<close> of \<^verbatim>\<open>posixpath\<close> (separator \<^verbatim>\<open>/\<close>, no alternative separator):
  the extension starts at the last dot of the last path component, unless that component
  has nothing but dots before it.
\<close>

definition splitext :: "path \<Rightarrow> path \<times> string" where
  "splitext p =
     (let sepIndex = rfind CHR ''/'' p;
          dotIndex = rfind CHR ''.'' p
      in if dotIndex > sepIndex \<and> has_name_before_dot p [nat (sepIndex + 1) ..< nat dotIndex]
         then (take (nat dotIndex) p, drop (nat dotIndex) p)
         else (p, []))"

subsection \<open>The file system\<close>

datatype node = File bytes | Directory

text \<open>
  \<open>nodes\<close> maps a path to what is there. \<open>readable\<close> and \<open>writable\<close> say whether the
  operating system grants opening the path for reading and for writing (permissions, a
  parent directory that exists).
\<close>

record filesys =
  nodes :: "path \<rightharpoonup> node"
  readable :: "path \<Rightarrow> bool"
  writable :: "path \<Rightarrow> bool"

text \<open>\<^verbatim>\<open>os.path.exists\<close>: true of files and of directories, false of the empty path.\<close>

definition os_path_exists :: "filesys \<Rightarrow> path \<Rightarrow> bool" where
  "os_path_exists fs p = (p \<noteq> [] \<and> nodes fs p \<noteq> None)"

text \<open>Opening a path for reading gives the bytes stored there, or an \<^verbatim>\<open>OSError\<close>.\<close>

definition os_open_read :: "filesys \<Rightarrow> path \<Rightarrow> py_error + bytes" where
  "os_open_read fs p =
     (if p = [] then Inl FileNotFoundError
      else case nodes fs p of
             None \<Rightarrow> Inl FileNotFoundError
           | Some Directory \<Rightarrow> Inl IsADirectoryError
           | Some (File b) \<Rightarrow> if readable fs p then Inr b else Inl PermissionError)"

text \<open>Opening a path for writing creates or truncates the file, or raises.\<close>

definition os_open_write :: "filesys \<Rightarrow> path \<Rightarrow> py_error option" where
  "os_open_write fs p =
     (if p = [] then Some FileNotFoundError
      else if nodes fs p = Some Directory then Some IsADirectoryError
      else if writable fs p then None else Some PermissionError)"

definition write_file :: "filesys \<Rightarrow> path \<Rightarrow> bytes \<Rightarrow> filesys" where
  "write_file fs p b = fs\<lparr>nodes := (nodes fs)(p \<mapsto> File b)\<rparr>"

subsection \<open>The libraries\<close>

text \<open>The modules that \<^verbatim>\<open>ext_dict\<close> holds; each has an \<^verbatim>\<open>open\<close> function.\<close>

datatype codec = Io | Gzip | Lzma | Bz2

text \<open>
  What \<^verbatim>\<open>compression.open(path, mode, **kwargs)\<close> followed by \<^verbatim>\<open>f.write(obj)\<close> and the
  end of the \<^verbatim>\<open>with\<close> block does: the arguments are refused before the file is touched,
  or the write raises and leaves some bytes behind, or the file holds the encoded bytes.
\<close>

datatype write_outcome =
    OpenFailed py_error
  | WriteFailed py_error bytes
  | Written bytes

text \<open>
  Python values are of an arbitrary type \<open>'v\<close>. The environment gives, for a module, a
  mode and the bytes of a file, what \<^verbatim>\<open>f.read()\<close> returns; for a module, a mode, the
  keyword options and a value, what writing it does; \<^verbatim>\<open>pickle.loads\<close> and
  \<^verbatim>\<open>pickle.dumps\<close>; the constructor \<^verbatim>\<open>pystan.StanModel\<close> on its keyword arguments;
  whether \<^verbatim>\<open>pip\<close> has an attribute \<^verbatim>\<open>main\<close>; and what \<^verbatim>\<open>pip.main\<close> and
  \<^verbatim>\<open>pip._internal.main\<close> do to the table of importable modules.
\<close>

record 'v env =
  codec_read :: "codec \<Rightarrow> string \<Rightarrow> bytes \<Rightarrow> py_error + 'v"
  codec_write :: "codec \<Rightarrow> string \<Rightarrow> (string \<times> 'v) list \<Rightarrow> 'v \<Rightarrow> write_outcome"
  pickle_loads :: "'v \<Rightarrow> py_error + 'v"
  pickle_dumps :: "'v \<Rightarrow> py_error + 'v"
  pystan_StanModel :: "(string \<times> 'v) list \<Rightarrow> py_error + 'v"
  pip_has_main :: bool
  pip_main :: "string list \<Rightarrow> (string \<Rightarrow> bool) \<Rightarrow> (py_error + unit) \<times> (string \<Rightarrow> bool)"
  pip_internal_main ::
    "string list \<Rightarrow> (string \<Rightarrow> bool) \<Rightarrow> (py_error + unit) \<times> (string \<Rightarrow> bool)"

subsection \<open>The codec dispatcher: \<^verbatim>\<open>_read\<close>, \<^verbatim>\<open>read\<close>, \<^verbatim>\<open>_save\<close>, \<^verbatim>\<open>save\<close>\<close>

text \<open>\<^verbatim>\<open>_read\<close> and \<^verbatim>\<open>_save\<close> are \<open>underscore_read\<close> and \<open>underscore_save\<close> here.\<close>

text \<open>The dictionary \<^verbatim>\<open>ext_dict\<close>, the same literal in \<^verbatim>\<open>read\<close> and in \<^verbatim>\<open>save\<close>.\<close>

definition ext_dict :: "(string \<times> codec) list" where
  "ext_dict =
     [(''.gz'', Gzip), (''.gzip'', Gzip), (''.zip'', Gzip),
      (''.xz'', Lzma), (''.lzma'', Lzma),
      (''.bz2'', Bz2),
      (''.pkl'', Io), (''.pickle'', Io)]"

text \<open>\<^verbatim>\<open>dict.get(key, default)\<close>.\<close>

definition dict_get :: "('k \<times> 'a) list \<Rightarrow> 'k \<Rightarrow> 'a \<Rightarrow> 'a" where
  "dict_get d k dflt = (case map_of d k of None \<Rightarrow> dflt | Some v \<Rightarrow> v)"

definition underscore_read :: "'v env \<Rightarrow> filesys \<Rightarrow> path \<Rightarrow> codec \<Rightarrow> string \<Rightarrow> bool \<Rightarrow> py_error + 'v" where
  "underscore_read E fs p compression mode pickling =
     (case os_open_read fs p of
        Inl e \<Rightarrow> Inl e
      | Inr raw \<Rightarrow>
          (case codec_read E compression mode raw of
             Inl e \<Rightarrow> Inl e
           | Inr obj \<Rightarrow> if pickling then pickle_loads E obj else Inr obj))"

definition read :: "'v env \<Rightarrow> filesys \<Rightarrow> path \<Rightarrow> string \<Rightarrow> bool \<Rightarrow> py_error + 'v" where
  "read E fs p mode pickling =
     (let extension = snd (splitext p);
          forced = (extension = ''.pkl'' \<or> extension = ''.pickle'');
          mode1 = (if forced then ''rb'' else mode);
          pickling1 = (if forced then True else pickling);
          compression = dict_get ext_dict extension Io
      in underscore_read E fs p compression mode1 pickling1)"

definition underscore_save ::
  "'v env \<Rightarrow> filesys \<Rightarrow> path \<Rightarrow> 'v \<Rightarrow> codec \<Rightarrow> string \<Rightarrow> bool \<Rightarrow> (string \<times> 'v) list
     \<Rightarrow> (py_error + unit) \<times> filesys" where
  "underscore_save E fs p obj compression mode pickling kwargs =
     (case (if pickling then pickle_dumps E obj else Inr obj) of
        Inl e \<Rightarrow> (Inl e, fs)
      | Inr data \<Rightarrow>
          (case codec_write E compression mode kwargs data of
             OpenFailed e \<Rightarrow> (Inl e, fs)
           | WriteFailed e partial \<Rightarrow>
               (case os_open_write fs p of
                  Some e1 \<Rightarrow> (Inl e1, fs)
                | None \<Rightarrow> (Inl e, write_file fs p partial))
           | Written raw \<Rightarrow>
               (case os_open_write fs p of
                  Some e1 \<Rightarrow> (Inl e1, fs)
                | None \<Rightarrow> (Inr (), write_file fs p raw))))"

definition save ::
  "'v env \<Rightarrow> filesys \<Rightarrow> path \<Rightarrow> 'v \<Rightarrow> string \<Rightarrow> bool \<Rightarrow> (string \<times> 'v) list
     \<Rightarrow> (py_error + unit) \<times> filesys" where
  "save E fs p obj mode pickling kwargs =
     (let extension = snd (splitext p);
          forced = (extension = ''.pkl'' \<or> extension = ''.pickle'');
          mode1 = (if forced then ''wb'' else mode);
          pickling1 = (if forced then True else pickling);
          compression = dict_get ext_dict extension Io
      in underscore_save E fs p obj compression mode1 pickling1 kwargs)"

subsection \<open>The world of \<^verbatim>\<open>StanModel\<close>\<close>

text \<open>
  The calls that leave the module are recorded as events, in the order they happen: a
  run of \<^verbatim>\<open>pip\<close>, the test \<^verbatim>\<open>os.path.exists\<close>, a call of \<^verbatim>\<open>read\<close>, a call of
  \<^verbatim>\<open>pystan.StanModel\<close> with its keyword arguments, a call of \<^verbatim>\<open>save\<close> with the object.
\<close>

datatype 'v event =
    EvPip "string list"
  | EvExists path
  | EvRead path
  | EvBuild "(string \<times> 'v) list"
  | EvSave path 'v

text \<open>
  The world: the disk, the table of modules that an \<^verbatim>\<open>import\<close> finds, and the events so
  far. \<^verbatim>\<open>pip\<close> acts on the table of modules and the builder on nothing: neither touches
  the files that the caller names.
\<close>

record 'v world =
  disk :: filesys
  importable :: "string \<Rightarrow> bool"
  trace :: "'v event list"

definition log_event :: "'v event \<Rightarrow> 'v world \<Rightarrow> 'v world" where
  "log_event ev w = w\<lparr>trace := trace w @ [ev]\<rparr>"

fun is_build :: "'v event \<Rightarrow> bool" where
  "is_build (EvBuild _) = True"
| "is_build _ = False"

fun is_save :: "'v event \<Rightarrow> bool" where
  "is_save (EvSave _ _) = True"
| "is_save _ = False"

fun is_file_access :: "'v event \<Rightarrow> bool" where
  "is_file_access (EvExists _) = True"
| "is_file_access (EvRead _) = True"
| "is_file_access (EvSave _ _) = True"
| "is_file_access _ = False"

text \<open>The events of a run: what the trace gained over the trace it started from.\<close>

definition new_events :: "'v world \<Rightarrow> 'v world \<Rightarrow> 'v event list" where
  "new_events w w1 = drop (length (trace w)) (trace w1)"

subsection \<open>\<^verbatim>\<open>install\<close>\<close>

definition run_pip ::
  "(string list \<Rightarrow> (string \<Rightarrow> bool) \<Rightarrow> (py_error + unit) \<times> (string \<Rightarrow> bool))
     \<Rightarrow> string list \<Rightarrow> 'v world \<Rightarrow> (py_error + unit) \<times> 'v world" where
  "run_pip main args w =
     (fst (main args (importable w)),
      log_event (EvPip args) (w\<lparr>importable := snd (main args (importable w))\<rparr>))"

definition install :: "'v env \<Rightarrow> string \<Rightarrow> 'v world \<Rightarrow> (py_error + unit) \<times> 'v world" where
  "install E package w =
     (if \<not> importable w ''pip'' then (Inl ModuleNotFoundError, w)
      else if pip_has_main E then run_pip (pip_main E) [''install'', package] w
      else if \<not> importable w ''pip._internal'' then (Inl ModuleNotFoundError, w)
      else run_pip (pip_internal_main E) [''install'', package] w)"

subsection \<open>\<^verbatim>\<open>StanModel\<close>\<close>

text \<open>
  The parameters of \<^verbatim>\<open>StanModel\<close> other than \<^verbatim>\<open>cache_path\<close>, and the dictionary
  \<^verbatim>\<open>stan_model_kwargs\<close> built from them, in the order of the source
  (the parameter \<^verbatim>\<open>file\<close> is the field \<open>stan_file\<close>).
\<close>

record 'v stan_params =
  stan_file :: 'v
  charset :: 'v
  model_name :: 'v
  model_code :: 'v
  stanc_ret :: 'v
  include_paths :: 'v
  boost_lib :: 'v
  eigen_lib :: 'v
  verbose :: 'v
  obfuscate_model_name :: 'v
  extra_compile_args :: 'v
  kwargs :: "(string \<times> 'v) list"

definition stan_model_kwargs :: "'v stan_params \<Rightarrow> (string \<times> 'v) list" where
  "stan_model_kwargs a =
     [(''file'', stan_file a),
      (''charset'', charset a),
      (''model_name'', model_name a),
      (''model_code'', model_code a),
      (''stanc_ret'', stanc_ret a),
      (''include_paths'', include_paths a),
      (''boost_lib'', boost_lib a),
      (''eigen_lib'', eigen_lib a),
      (''verbose'', verbose a),
      (''obfuscate_model_name'', obfuscate_model_name a),
      (''extra_compile_args'', extra_compile_args a)] @ kwargs a"

text \<open>
  Lines 187 to 190: \<^verbatim>\<open>try: import pystan\<close>, \<^verbatim>\<open>except: install("pystan")\<close>. The statement
  \<^verbatim>\<open>import pystan\<close> stands in the body of the function and the module has no import of
  \<^verbatim>\<open>pystan\<close> at its top, so \<^verbatim>\<open>pystan\<close> is a local name of \<^verbatim>\<open>StanModel\<close>: it is bound
  when the import succeeds and stays unbound when it fails, whatever \<^verbatim>\<open>install\<close> does
  afterwards. The result is whether the name is bound; an exception of \<^verbatim>\<open>install\<close>
  leaves the handler and the function.
\<close>

definition try_import_pystan :: "'v env \<Rightarrow> 'v world \<Rightarrow> (py_error + bool) \<times> 'v world" where
  "try_import_pystan E w =
     (if importable w ''pystan'' then (Inr True, w)
      else case install E ''pystan'' w of
             (Inl e, w1) \<Rightarrow> (Inl e, w1)
           | (Inr u, w1) \<Rightarrow> (Inr False, w1))"

text \<open>
  Lines 201 to 218, the branch \<^verbatim>\<open>if compile_model\<close>: reading the unbound local
  \<^verbatim>\<open>pystan\<close> raises \<^verbatim>\<open>UnboundLocalError\<close>; an exception of the builder leaves the
  function; \<^verbatim>\<open>if cache_path:\<close> holds of a string that is not empty.
\<close>

definition compile_and_cache ::
  "'v env \<Rightarrow> 'v stan_params \<Rightarrow> path option \<Rightarrow> bool \<Rightarrow> 'v world \<Rightarrow> (py_error + 'v) \<times> 'v world" where
  "compile_and_cache E a cache_path pystan_bound w =
     (if \<not> pystan_bound then (Inl UnboundLocalError, w)
      else
        let w1 = log_event (EvBuild (stan_model_kwargs a)) w
        in case pystan_StanModel E (stan_model_kwargs a) of
             Inl e \<Rightarrow> (Inl e, w1)
           | Inr stan_model \<Rightarrow>
               (case cache_path of
                  None \<Rightarrow> (Inr stan_model, w1)
                | Some p \<Rightarrow>
                    if p = [] then (Inr stan_model, w1)
                    else
                      let w2 = log_event (EvSave p stan_model) w1
                      in (case save E (disk w2) p stan_model ''wb'' True [] of
                            (Inl e, fs1) \<Rightarrow> (Inl e, w2\<lparr>disk := fs1\<rparr>)
                          | (Inr u, fs1) \<Rightarrow> (Inr stan_model, w2\<lparr>disk := fs1\<rparr>))))"

text \<open>
  \<^verbatim>\<open>StanModel\<close>, lines 187 to 220. The test of line 192 evaluates \<^verbatim>\<open>os.path.exists\<close>
  only for a \<^verbatim>\<open>cache_path\<close> that is not \<^verbatim>\<open>None\<close>. The handler of line 196 takes an
  \<^verbatim>\<open>OSError\<close> or a \<^verbatim>\<open>TypeError\<close> of \<^verbatim>\<open>read\<close>; any other exception leaves the function.
\<close>

definition StanModel ::
  "'v env \<Rightarrow> 'v stan_params \<Rightarrow> path option \<Rightarrow> 'v world \<Rightarrow> (py_error + 'v) \<times> 'v world" where
  "StanModel E a cache_path w =
     (case try_import_pystan E w of
        (Inl e, w0) \<Rightarrow> (Inl e, w0)
      | (Inr pystan_bound, w0) \<Rightarrow>
          (case cache_path of
             None \<Rightarrow> compile_and_cache E a cache_path pystan_bound w0
           | Some p \<Rightarrow>
               let w1 = log_event (EvExists p) w0
               in if os_path_exists (disk w1) p
                  then
                    let w2 = log_event (EvRead p) w1
                    in (case read E (disk w2) p ''rb'' True of
                          Inr stan_model \<Rightarrow> (Inr stan_model, w2)
                        | Inl e \<Rightarrow>
                            if isinstance_OSError e \<or> isinstance_TypeError e
                            then compile_and_cache E a cache_path pystan_bound w2
                            else (Inl e, w2))
                  else compile_and_cache E a cache_path pystan_bound w1))"

subsection \<open>What the specification says of the libraries and of the table\<close>

text \<open>
  The round trip of the libraries, as laws of the environment: \<^verbatim>\<open>pickle.loads\<close> gives
  back what \<^verbatim>\<open>pickle.dumps\<close> took, and reading a file through a module in mode
  \<^verbatim>\<open>rb\<close> gives back the value written through the same module in mode \<^verbatim>\<open>wb\<close> with
  no keyword options.
\<close>

definition pickle_roundtrip :: "'v env \<Rightarrow> bool" where
  "pickle_roundtrip E = (\<forall>obj d. pickle_dumps E obj = Inr d \<longrightarrow> pickle_loads E d = Inr obj)"

definition codec_roundtrip :: "'v env \<Rightarrow> bool" where
  "codec_roundtrip E =
     (\<forall>c d raw. codec_write E c ''wb'' [] d = Written raw \<longrightarrow> codec_read E c ''rb'' raw = Inr d)"

text \<open>
  The extension table in the words of the specification: \<^verbatim>\<open>.gz\<close>, \<^verbatim>\<open>.gzip\<close>, \<^verbatim>\<open>.zip\<close>
  give gzip; \<^verbatim>\<open>.xz\<close>, \<^verbatim>\<open>.lzma\<close> give lzma; \<^verbatim>\<open>.bz2\<close> gives bzip2; anything else, and
  \<^verbatim>\<open>.pkl\<close> and \<^verbatim>\<open>.pickle\<close> with them, gives the raw-bytes codec; \<^verbatim>\<open>.pkl\<close> and
  \<^verbatim>\<open>.pickle\<close> force serialization.
\<close>

definition spec_codec :: "string \<Rightarrow> codec" where
  "spec_codec ext =
     (if ext = ''.gz'' \<or> ext = ''.gzip'' \<or> ext = ''.zip'' then Gzip
      else if ext = ''.xz'' \<or> ext = ''.lzma'' then Lzma
      else if ext = ''.bz2'' then Bz2
      else Io)"

definition spec_forced :: "string \<Rightarrow> bool" where
  "spec_forced ext = (ext = ''.pkl'' \<or> ext = ''.pickle'')"

subsection \<open>A small environment to run the model on\<close>

text \<open>
  Values are \<^verbatim>\<open>None\<close>, booleans, strings, bytes and compiled models (named by their
  code). The pickle of the environment writes one letter for the kind of value and then
  its text; each compression module writes a tag of its own before the bytes and refuses
  a file that does not start with it; the builder compiles a \<^verbatim>\<open>model_code\<close> that is a
  string and not empty; \<^verbatim>\<open>pip\<close> makes the package it is asked for importable.
\<close>

datatype pyval = PyNone | PyBool bool | PyStr string | PyBytes bytes | PyModel string

fun ex_tag :: "codec \<Rightarrow> bytes" where
  "ex_tag Io = []"
| "ex_tag Gzip = ''GZ:''"
| "ex_tag Lzma = ''XZ:''"
| "ex_tag Bz2 = ''BZ:''"

fun ex_codec_error :: "codec \<Rightarrow> py_error" where
  "ex_codec_error Gzip = BadGzipFile"
| "ex_codec_error Lzma = LZMAError"
| "ex_codec_error _ = OSError"

definition ex_codec_read :: "codec \<Rightarrow> string \<Rightarrow> bytes \<Rightarrow> py_error + pyval" where
  "ex_codec_read c mode raw =
     (if mode \<noteq> ''rb'' then Inl ValueError
      else if take (length (ex_tag c)) raw = ex_tag c
           then Inr (PyBytes (drop (length (ex_tag c)) raw))
           else Inl (ex_codec_error c))"

definition ex_codec_write ::
  "codec \<Rightarrow> string \<Rightarrow> (string \<times> pyval) list \<Rightarrow> pyval \<Rightarrow> write_outcome" where
  "ex_codec_write c mode kw v =
     (if mode \<noteq> ''wb'' then OpenFailed ValueError
      else if kw \<noteq> [] then OpenFailed TypeError
      else case v of
             PyBytes b \<Rightarrow> Written (ex_tag c @ b)
           | _ \<Rightarrow> WriteFailed TypeError (ex_tag c))"

fun ex_dumps :: "pyval \<Rightarrow> py_error + pyval" where
  "ex_dumps PyNone = Inr (PyBytes ''N'')"
| "ex_dumps (PyBool b) = Inr (PyBytes (if b then ''T'' else ''F''))"
| "ex_dumps (PyStr s) = Inr (PyBytes (CHR ''S'' # s))"
| "ex_dumps (PyBytes b) = Inr (PyBytes (CHR ''B'' # b))"
| "ex_dumps (PyModel s) = Inr (PyBytes (CHR ''M'' # s))"

fun ex_loads :: "pyval \<Rightarrow> py_error + pyval" where
  "ex_loads (PyBytes []) = Inl EOFError"
| "ex_loads (PyBytes (c # s)) =
     (if c = CHR ''N'' \<and> s = [] then Inr PyNone
      else if c = CHR ''T'' \<and> s = [] then Inr (PyBool True)
      else if c = CHR ''F'' \<and> s = [] then Inr (PyBool False)
      else if c = CHR ''S'' then Inr (PyStr s)
      else if c = CHR ''B'' then Inr (PyBytes s)
      else if c = CHR ''M'' then Inr (PyModel s)
      else Inl UnpicklingError)"
| "ex_loads _ = Inl TypeError"

definition ex_builder :: "(string \<times> pyval) list \<Rightarrow> py_error + pyval" where
  "ex_builder kw =
     (case map_of kw ''model_code'' of
        Some (PyStr s) \<Rightarrow> if s = [] then Inl ValueError else Inr (PyModel s)
      | _ \<Rightarrow> Inl ValueError)"

definition ex_pip :: "string list \<Rightarrow> (string \<Rightarrow> bool) \<Rightarrow> (py_error + unit) \<times> (string \<Rightarrow> bool)" where
  "ex_pip args ms = (Inr (), (\<lambda>m. m = last args \<or> ms m))"

definition ex_env :: "pyval env" where
  "ex_env =
     \<lparr>codec_read = ex_codec_read, codec_write = ex_codec_write,
      pickle_loads = ex_loads, pickle_dumps = ex_dumps,
      pystan_StanModel = ex_builder,
      pip_has_main = True, pip_main = ex_pip, pip_internal_main = ex_pip\<rparr>"

text \<open>The call \<^verbatim>\<open>StanModel(model_code=code)\<close>, every other parameter at its default.\<close>

definition ex_params :: "string \<Rightarrow> pyval stan_params" where
  "ex_params code =
     \<lparr>stan_file = PyNone, charset = PyStr ''utf-8'', model_name = PyStr ''anon_model'',
      model_code = PyStr code, stanc_ret = PyNone, include_paths = PyNone,
      boost_lib = PyNone, eigen_lib = PyNone, verbose = PyBool False,
      obfuscate_model_name = PyBool True, extra_compile_args = PyNone, kwargs = []\<rparr>"

text \<open>A disk with the given nodes, everything readable and writable.\<close>

definition ex_disk :: "(path \<times> node) list \<Rightarrow> filesys" where
  "ex_disk files = \<lparr>nodes = map_of files, readable = (\<lambda>p. True), writable = (\<lambda>p. True)\<rparr>"

text \<open>A world on that disk, with \<^verbatim>\<open>pip\<close> present, \<^verbatim>\<open>pystan\<close> present or not, no events.\<close>

definition ex_world :: "(path \<times> node) list \<Rightarrow> bool \<Rightarrow> pyval world" where
  "ex_world files has_pystan =
     \<lparr>disk = ex_disk files,
      importable = (\<lambda>m. m = ''pip'' \<or> (has_pystan \<and> m = ''pystan'')),
      trace = []\<rparr>"

section \<open>Properties\<close>

subsection \<open>Auxiliary facts\<close>

text \<open>The import step: what it does to the disk, to the events and to the local name.\<close>

lemma try_import_available: "importable w ''pystan'' \<Longrightarrow> try_import_pystan E w = (Inr True, w)"
  by (simp add: try_import_pystan_def)

lemma install_disk: "disk (snd (install E pkg w)) = disk w"
  by (simp add: install_def run_pip_def log_event_def)

lemma install_trace:
  "trace (snd (install E pkg w)) = trace w @ []
   \<or> trace (snd (install E pkg w)) = trace w @ [EvPip [''install'', pkg]]"
  by (simp add: install_def run_pip_def log_event_def)

lemma try_import_snd:
  "snd (try_import_pystan E w) = (if importable w ''pystan'' then w else snd (install E ''pystan'' w))"
  by (simp add: try_import_pystan_def split: prod.splits sum.splits)

lemma try_import_fst:
  "\<not> importable w ''pystan'' \<Longrightarrow> fst (try_import_pystan E w) \<noteq> Inr True"
  by (simp add: try_import_pystan_def split: prod.splits sum.splits)

lemma try_import_effect:
  obtains r w0 pre where
    "try_import_pystan E w = (r, w0)" and "disk w0 = disk w" and "trace w0 = trace w @ pre"
    and "pre = [] \<or> pre = [EvPip [''install'', ''pystan'']]"
    and "\<not> importable w ''pystan'' \<Longrightarrow> r \<noteq> Inr True"
proof -
  obtain r w0 where rw: "try_import_pystan E w = (r, w0)"
    by (cases "try_import_pystan E w")
  have d: "disk w0 = disk w"
    using rw try_import_snd [of E w] install_disk [of E "''pystan''" w] by (simp split: if_splits)
  have "trace w0 = trace w @ [] \<or> trace w0 = trace w @ [EvPip [''install'', ''pystan'']]"
    using rw try_import_snd [of E w] install_trace [of E "''pystan''" w] by (simp split: if_splits)
  then obtain pre where t: "trace w0 = trace w @ pre" "pre = [] \<or> pre = [EvPip [''install'', ''pystan'']]"
    by blast
  have "\<not> importable w ''pystan'' \<Longrightarrow> r \<noteq> Inr True"
    using rw try_import_fst [of w E] by simp
  with rw d t show ?thesis using that by blast
qed

lemma compile_and_cache_unbound:
  "compile_and_cache E a cp False w = (Inl UnboundLocalError, w)"
  by (simp add: compile_and_cache_def)

lemma compile_and_cache_no_path:
  "cp = None \<or> cp = Some [] \<Longrightarrow>
   compile_and_cache E a cp True w =
     (pystan_StanModel E (stan_model_kwargs a),
      w\<lparr>trace := trace w @ [EvBuild (stan_model_kwargs a)]\<rparr>)"
  by (auto simp: compile_and_cache_def log_event_def Let_def split: sum.splits)

lemma compile_and_cache_build_error:
  "pystan_StanModel E (stan_model_kwargs a) = Inl e \<Longrightarrow>
   compile_and_cache E a cp True w = (Inl e, w\<lparr>trace := trace w @ [EvBuild (stan_model_kwargs a)]\<rparr>)"
  by (simp add: compile_and_cache_def log_event_def Let_def)

lemma compile_and_cache_build_error_any:
  "pystan_StanModel E (stan_model_kwargs a) = Inl e \<Longrightarrow>
   compile_and_cache E a cp b w =
     (if b then (Inl e, w\<lparr>trace := trace w @ [EvBuild (stan_model_kwargs a)]\<rparr>)
      else (Inl UnboundLocalError, w))"
  by (simp add: compile_and_cache_def log_event_def Let_def)

lemma compile_and_cache_saved:
  "p \<noteq> [] \<Longrightarrow> pystan_StanModel E (stan_model_kwargs a) = Inr m \<Longrightarrow>
   save E (disk w) p m ''wb'' True [] = (r, fs1) \<Longrightarrow>
   compile_and_cache E a (Some p) True w =
     ((case r of Inl e \<Rightarrow> Inl e | Inr u \<Rightarrow> Inr m),
      w\<lparr>disk := fs1, trace := trace w @ [EvBuild (stan_model_kwargs a), EvSave p m]\<rparr>)"
  by (simp add: compile_and_cache_def log_event_def Let_def split: sum.splits)

lemma StanModel_empty_path:
  "importable w ''pystan'' \<Longrightarrow>
   StanModel E a (Some []) w =
     (pystan_StanModel E (stan_model_kwargs a),
      w\<lparr>trace := trace w @ [EvExists [], EvBuild (stan_model_kwargs a)]\<rparr>)"
  by (simp add: StanModel_def try_import_available compile_and_cache_no_path
      log_event_def os_path_exists_def Let_def)

lemma save_success_cases:
  assumes "save E fs p obj ''wb'' True [] = (Inr (), fs1)"
  obtains d raw where "pickle_dumps E obj = Inr d"
    and "codec_write E (dict_get ext_dict (snd (splitext p)) Io) ''wb'' [] d = Written raw"
    and "os_open_write fs p = None" and "fs1 = write_file fs p raw"
  using assms
  by (auto simp: save_def underscore_save_def Let_def
      split: sum.splits write_outcome.splits option.splits)

lemma read_written_file:
  assumes "os_open_write fs p = None" and "readable fs p"
  shows "os_open_read (write_file fs p raw) p = Inr raw \<and> os_path_exists (write_file fs p raw) p"
  using assms
  by (auto simp: os_open_write_def os_open_read_def write_file_def os_path_exists_def
      split: if_splits)

lemma save_read_roundtrip:
  assumes "pickle_roundtrip E" and "codec_roundtrip E" and "readable fs p"
    and "save E fs p obj ''wb'' True [] = (Inr (), fs1)"
  shows "read E fs1 p ''rb'' True = Inr obj \<and> os_path_exists fs1 p"
proof -
  let ?c = "dict_get ext_dict (snd (splitext p)) Io"
  from assms(4) obtain d raw where
    dumps: "pickle_dumps E obj = Inr d"
    and wr: "codec_write E ?c ''wb'' [] d = Written raw"
    and ow: "os_open_write fs p = None" and fs1: "fs1 = write_file fs p raw"
    by (rule save_success_cases)
  from assms(2) wr have rd: "codec_read E ?c ''rb'' raw = Inr d"
    by (simp add: codec_roundtrip_def)
  from assms(1) dumps have ld: "pickle_loads E d = Inr obj"
    by (simp add: pickle_roundtrip_def)
  from ow assms(3) have op: "os_open_read fs1 p = Inr raw" and ex: "os_path_exists fs1 p"
    using read_written_file [of fs p raw] fs1 by simp_all
  have "read E fs1 p ''rb'' True = underscore_read E fs1 p ?c ''rb'' True"
    by (simp add: read_def Let_def)
  also have "\<dots> = Inr obj"
    using op rd ld by (simp add: underscore_read_def)
  finally show ?thesis using ex by simp
qed

subsection \<open>The small environment: evaluations and library laws\<close>

lemma splitext_m_pkl: "splitext ''m.pkl'' = (''m'', ''.pkl'')"
  by code_simp

lemma splitext_m_gz: "splitext ''m.gz'' = (''m'', ''.gz'')"
  by code_simp

lemma splitext_m_xz: "splitext ''m.xz'' = (''m'', ''.xz'')"
  by code_simp

lemma splitext_m_bz2: "splitext ''m.bz2'' = (''m'', ''.bz2'')"
  by code_simp

lemma splitext_m_dat: "splitext ''m.dat'' = (''m'', ''.dat'')"
  by code_simp

lemma splitext_m_GZ: "splitext ''m.GZ'' = (''m'', ''.GZ'')"
  by code_simp

lemma splitext_dot_gz: "splitext ''.gz'' = (''.gz'', [])"
  by code_simp

lemma splitext_empty: "splitext [] = ([], [])"
  by code_simp

lemmas splitext_examples =
  splitext_m_pkl splitext_m_gz splitext_m_xz splitext_m_bz2 splitext_m_dat splitext_m_GZ
  splitext_dot_gz splitext_empty

lemma ex_env_pickle_roundtrip: "pickle_roundtrip ex_env"
proof -
  have "ex_loads d = Inr obj" if "ex_dumps obj = Inr d" for obj d
    using that by (cases obj) auto
  then show ?thesis
    by (simp add: pickle_roundtrip_def ex_env_def)
qed

lemma ex_env_codec_roundtrip: "codec_roundtrip ex_env"
proof -
  have "ex_codec_read c ''rb'' raw = Inr d" if "ex_codec_write c ''wb'' [] d = Written raw" for c d raw
    using that by (cases d) (auto simp: ex_codec_write_def ex_codec_read_def)
  then show ?thesis
    by (simp add: codec_roundtrip_def ex_env_def)
qed

lemmas ex_defs =
  ex_world_def ex_disk_def ex_env_def ex_params_def ex_builder_def ex_pip_def
  ex_codec_read_def ex_codec_write_def stan_model_kwargs_def

lemmas io_defs =
  read_def save_def underscore_read_def underscore_save_def dict_get_def ext_dict_def
  os_open_read_def os_open_write_def os_path_exists_def write_file_def Let_def

lemmas run_defs = StanModel_def try_import_pystan_def compile_and_cache_def install_def
  run_pip_def log_event_def new_events_def

subsection \<open>C1: cache hit\<close>

text \<open>
  Claim C1. Cache hit: when the import step completes, \<^verbatim>\<open>cache_path\<close> is given and exists,
  and \<^verbatim>\<open>read\<close> of it returns an object, \<^verbatim>\<open>StanModel\<close> returns that object, the builder is
  not called, the disk is unchanged, and the result is the same for any other build
  parameters: the object is not checked against them.
\<close>

theorem cache_hit_returns_loaded_artifact:
  assumes "fst (try_import_pystan E w) = Inr b"
    and "os_path_exists (disk w) p"
    and "read E (disk w) p ''rb'' True = Inr m"
  shows "fst (StanModel E a (Some p) w) = Inr m
       \<and> filter is_build (new_events w (snd (StanModel E a (Some p) w))) = []
       \<and> disk (snd (StanModel E a (Some p) w)) = disk w
       \<and> StanModel E a2 (Some p) w = StanModel E a (Some p) w"
proof -
  obtain r w0 pre where
    rw: "try_import_pystan E w = (r, w0)" and d: "disk w0 = disk w"
    and t: "trace w0 = trace w @ pre" and pre: "pre = [] \<or> pre = [EvPip [''install'', ''pystan'']]"
    by (rule try_import_effect)
  from rw assms(1) have r: "r = Inr b" by simp
  have run: "StanModel E x (Some p) w = (Inr m, w0\<lparr>trace := trace w @ pre @ [EvExists p, EvRead p]\<rparr>)" for x
    using rw r d t assms(2,3) by (simp add: StanModel_def log_event_def Let_def)
  from pre have "filter is_build (pre @ [EvExists p, EvRead p]) = []" by auto
  then show ?thesis
    using d by (simp add: run new_events_def)
qed

text \<open>
  Witness of C1: \<^verbatim>\<open>m.pkl\<close> holds the pickle of one model and the call asks for another;
  the stored one is returned and nothing is built.
\<close>

theorem cache_hit_returns_loaded_artifact_witness:
  "os_path_exists (disk (ex_world [(''m.pkl'', File ''Mmodel {}'')] True)) ''m.pkl''
   \<and> read ex_env (disk (ex_world [(''m.pkl'', File ''Mmodel {}'')] True)) ''m.pkl'' ''rb'' True
       = Inr (PyModel ''model {}'')
   \<and> fst (StanModel ex_env (ex_params ''another model'') (Some ''m.pkl'')
            (ex_world [(''m.pkl'', File ''Mmodel {}'')] True)) = Inr (PyModel ''model {}'')
   \<and> filter is_build (trace (snd (StanModel ex_env (ex_params ''another model'') (Some ''m.pkl'')
            (ex_world [(''m.pkl'', File ''Mmodel {}'')] True)))) = []"
proof -
  let ?w = "ex_world [(''m.pkl'', File ''Mmodel {}'')] True"
  have h1: "fst (try_import_pystan ex_env ?w) = Inr True"
    by (simp add: try_import_pystan_def ex_defs)
  have h2: "os_path_exists (disk ?w) ''m.pkl''"
    by (simp add: io_defs ex_defs)
  have h3: "read ex_env (disk ?w) ''m.pkl'' ''rb'' True = Inr (PyModel ''model {}'')"
    by (simp add: io_defs ex_defs splitext_examples)
  have t: "trace ?w = []" by (simp add: ex_defs)
  from cache_hit_returns_loaded_artifact [OF h1 h2 h3, of "ex_params ''another model''"]
  show ?thesis
    using h2 h3 t by (simp add: new_events_def)
qed

subsection \<open>C2: cache miss\<close>

text \<open>
  Claim C2 as stated fails at the empty string: it is a \<^verbatim>\<open>cache_path\<close> other than \<^verbatim>\<open>None\<close>
  at which no file exists, the builder runs and its object is returned, but nothing is
  saved, the disk is as it was, and a second call builds again.
\<close>

theorem empty_cache_path_is_never_persisted:
  "\<not> os_path_exists (disk (ex_world [] True)) []
   \<and> fst (StanModel ex_env (ex_params ''model {}'') (Some []) (ex_world [] True))
       = Inr (PyModel ''model {}'')
   \<and> filter is_save (trace (snd (StanModel ex_env (ex_params ''model {}'') (Some [])
         (ex_world [] True)))) = []
   \<and> disk (snd (StanModel ex_env (ex_params ''model {}'') (Some []) (ex_world [] True)))
       = disk (ex_world [] True)
   \<and> filter is_build (new_events
         (snd (StanModel ex_env (ex_params ''model {}'') (Some []) (ex_world [] True)))
         (snd (StanModel ex_env (ex_params ''model {}'') (Some [])
            (snd (StanModel ex_env (ex_params ''model {}'') (Some []) (ex_world [] True))))))
       = [EvBuild (stan_model_kwargs (ex_params ''model {}''))]"
proof -
  let ?w = "ex_world [] True"
  let ?a = "ex_params ''model {}''"
  let ?w1 = "?w\<lparr>trace := [EvExists [], EvBuild (stan_model_kwargs ?a)]\<rparr>"
  have t: "trace ?w = []" by (simp add: ex_defs)
  have av: "importable ?w ''pystan''" "importable ?w1 ''pystan''"
    by (simp_all add: ex_defs)
  have b: "pystan_StanModel ex_env (stan_model_kwargs ?a) = Inr (PyModel ''model {}'')"
    by (simp add: ex_defs)
  have first: "StanModel ex_env ?a (Some []) ?w = (Inr (PyModel ''model {}''), ?w1)"
    by (simp add: StanModel_empty_path [OF av(1)] b t)
  have second: "StanModel ex_env ?a (Some []) ?w1 =
      (Inr (PyModel ''model {}''),
       ?w\<lparr>trace := [EvExists [], EvBuild (stan_model_kwargs ?a),
                      EvExists [], EvBuild (stan_model_kwargs ?a)]\<rparr>)"
    by (simp add: StanModel_empty_path [OF av(2)] b)
  show ?thesis
    by (simp add: first second new_events_def os_path_exists_def)
qed

text \<open>
  Claim C2, amended. With \<^verbatim>\<open>pystan\<close> importable and a \<^verbatim>\<open>cache_path\<close> that is not empty and
  does not exist, every run makes the existence test, reads nothing, calls the builder
  exactly once, on the forwarded keyword arguments, and calls \<^verbatim>\<open>save\<close> exactly once, on the
  object of the builder and at \<^verbatim>\<open>cache_path\<close> (not at all when the builder raises). When
  the builder and \<^verbatim>\<open>save\<close> return, the object is returned and the disk is the one that
  \<^verbatim>\<open>save\<close> left; and when moreover the libraries round-trip and the path may be read, a
  second call with the same \<^verbatim>\<open>cache_path\<close>, whatever its build parameters, is a cache hit:
  it returns the same object after the existence test and one \<^verbatim>\<open>read\<close>, without a build.
\<close>

theorem cache_miss_builds_once_and_persists:
  assumes "importable w ''pystan''"
    and "p \<noteq> []"
    and "\<not> os_path_exists (disk w) p"
  shows "new_events w (snd (StanModel E a (Some p) w))
           = [EvExists p, EvBuild (stan_model_kwargs a)]
             @ (case pystan_StanModel E (stan_model_kwargs a) of
                  Inl e0 \<Rightarrow> [] | Inr m0 \<Rightarrow> [EvSave p m0])
       \<and> filter is_build (new_events w (snd (StanModel E a (Some p) w)))
           = [EvBuild (stan_model_kwargs a)]
       \<and> filter is_save (new_events w (snd (StanModel E a (Some p) w)))
           = (case pystan_StanModel E (stan_model_kwargs a) of
                Inl e0 \<Rightarrow> [] | Inr m0 \<Rightarrow> [EvSave p m0])
       \<and> (pystan_StanModel E (stan_model_kwargs a) = Inr m
            \<and> save E (disk w) p m ''wb'' True [] = (Inr (), fs1) \<longrightarrow>
          StanModel E a (Some p) w =
            (Inr m, w\<lparr>disk := fs1,
                      trace := trace w @ [EvExists p, EvBuild (stan_model_kwargs a),
                                          EvSave p m]\<rparr>)
          \<and> (pickle_roundtrip E \<and> codec_roundtrip E \<and> readable (disk w) p \<longrightarrow>
               fst (StanModel E a2 (Some p) (snd (StanModel E a (Some p) w))) = Inr m
               \<and> new_events (snd (StanModel E a (Some p) w))
                    (snd (StanModel E a2 (Some p) (snd (StanModel E a (Some p) w))))
                  = [EvExists p, EvRead p]))"
proof -
  let ?R = "StanModel E a (Some p) w"
  let ?w0 = "w\<lparr>trace := trace w @ [EvExists p]\<rparr>"
  have run: "?R = compile_and_cache E a (Some p) True ?w0"
    using assms by (simp add: StanModel_def try_import_available log_event_def Let_def)
  have events: "new_events w (snd ?R)
      = [EvExists p, EvBuild (stan_model_kwargs a)]
        @ (case pystan_StanModel E (stan_model_kwargs a) of
             Inl e0 \<Rightarrow> [] | Inr m0 \<Rightarrow> [EvSave p m0])"
  proof (cases "pystan_StanModel E (stan_model_kwargs a)")
    case (Inl e0)
    then show ?thesis
      by (simp add: run compile_and_cache_build_error new_events_def)
  next
    case (Inr m0)
    obtain r0 fs0 where "save E (disk ?w0) p m0 ''wb'' True [] = (r0, fs0)"
      by (cases "save E (disk ?w0) p m0 ''wb'' True []")
    with Inr assms(2) show ?thesis
      by (simp add: run compile_and_cache_saved new_events_def)
  qed
  have builds: "filter is_build (new_events w (snd ?R)) = [EvBuild (stan_model_kwargs a)]"
    by (simp add: events split: sum.splits)
  have saves: "filter is_save (new_events w (snd ?R))
      = (case pystan_StanModel E (stan_model_kwargs a) of
           Inl e0 \<Rightarrow> [] | Inr m0 \<Rightarrow> [EvSave p m0])"
    by (simp add: events split: sum.splits)
  have success: "?R = (Inr m, w\<lparr>disk := fs1,
                      trace := trace w @ [EvExists p, EvBuild (stan_model_kwargs a),
                                          EvSave p m]\<rparr>)
      \<and> (pickle_roundtrip E \<and> codec_roundtrip E \<and> readable (disk w) p \<longrightarrow>
           fst (StanModel E a2 (Some p) (snd ?R)) = Inr m
           \<and> new_events (snd ?R) (snd (StanModel E a2 (Some p) (snd ?R)))
              = [EvExists p, EvRead p])"
    if b: "pystan_StanModel E (stan_model_kwargs a) = Inr m"
      and s: "save E (disk w) p m ''wb'' True [] = (Inr (), fs1)"
  proof -
    let ?w1 = "w\<lparr>disk := fs1,
                 trace := trace w @ [EvExists p, EvBuild (stan_model_kwargs a), EvSave p m]\<rparr>"
    have first: "?R = (Inr m, ?w1)"
      using assms(2) b s by (simp add: run compile_and_cache_saved)
    have second: "fst (StanModel E a2 (Some p) ?w1) = Inr m
        \<and> new_events ?w1 (snd (StanModel E a2 (Some p) ?w1)) = [EvExists p, EvRead p]"
      if rt: "pickle_roundtrip E" "codec_roundtrip E" "readable (disk w) p"
    proof -
      from save_read_roundtrip [OF rt s]
      have rd: "read E fs1 p ''rb'' True = Inr m" and ex: "os_path_exists fs1 p"
        by simp_all
      have av: "importable ?w1 ''pystan''" using assms(1) by simp
      show ?thesis
        using rd ex
        by (simp add: StanModel_def try_import_available [OF av] log_event_def Let_def
            new_events_def)
    qed
    show ?thesis
      using first second by simp
  qed
  show ?thesis
    using events builds saves success by blast
qed

text \<open>
  Witness of C2, amended: \<^verbatim>\<open>m.pkl\<close> on an empty disk; a second call with another model
  code returns the stored model after one existence test and one \<^verbatim>\<open>read\<close>. And a miss
  whose builder raises: one build, no \<^verbatim>\<open>save\<close>.
\<close>

theorem cache_miss_builds_once_and_persists_witness:
  "\<not> os_path_exists (disk (ex_world [] True)) ''m.pkl''
   \<and> fst (StanModel ex_env (ex_params ''model {}'') (Some ''m.pkl'') (ex_world [] True))
       = Inr (PyModel ''model {}'')
   \<and> trace (snd (StanModel ex_env (ex_params ''model {}'') (Some ''m.pkl'') (ex_world [] True)))
       = [EvExists ''m.pkl'', EvBuild (stan_model_kwargs (ex_params ''model {}'')),
          EvSave ''m.pkl'' (PyModel ''model {}'')]
   \<and> nodes (disk (snd (StanModel ex_env (ex_params ''model {}'') (Some ''m.pkl'')
         (ex_world [] True)))) ''m.pkl'' = Some (File ''Mmodel {}'')
   \<and> fst (StanModel ex_env (ex_params ''another model'') (Some ''m.pkl'')
         (snd (StanModel ex_env (ex_params ''model {}'') (Some ''m.pkl'') (ex_world [] True))))
       = Inr (PyModel ''model {}'')
   \<and> new_events (snd (StanModel ex_env (ex_params ''model {}'') (Some ''m.pkl'') (ex_world [] True)))
        (snd (StanModel ex_env (ex_params ''another model'') (Some ''m.pkl'')
           (snd (StanModel ex_env (ex_params ''model {}'') (Some ''m.pkl'') (ex_world [] True)))))
       = [EvExists ''m.pkl'', EvRead ''m.pkl'']
   \<and> trace (snd (StanModel ex_env (ex_params []) (Some ''m.pkl'') (ex_world [] True)))
       = [EvExists ''m.pkl'', EvBuild (stan_model_kwargs (ex_params []))]"
proof -
  let ?w = "ex_world [] True"
  let ?a = "ex_params ''model {}''"
  let ?fs1 = "write_file (disk ?w) ''m.pkl'' ''Mmodel {}''"
  have h1: "importable ?w ''pystan''" by (simp add: ex_defs)
  have h2: "''m.pkl'' \<noteq> []" by simp
  have h3: "\<not> os_path_exists (disk ?w) ''m.pkl''" by (simp add: io_defs ex_defs)
  have h4: "pystan_StanModel ex_env (stan_model_kwargs ?a) = Inr (PyModel ''model {}'')"
    by (simp add: ex_defs)
  have h5: "save ex_env (disk ?w) ''m.pkl'' (PyModel ''model {}'') ''wb'' True [] = (Inr (), ?fs1)"
    by (simp add: io_defs ex_defs splitext_examples)
  have h6: "pystan_StanModel ex_env (stan_model_kwargs (ex_params [])) = Inl ValueError"
    by (simp add: ex_defs)
  have rt: "pickle_roundtrip ex_env \<and> codec_roundtrip ex_env \<and> readable (disk ?w) ''m.pkl''"
    by (simp add: ex_env_pickle_roundtrip ex_env_codec_roundtrip, simp add: ex_defs)
  have t: "trace ?w = []" by (simp add: ex_defs)
  note inst = cache_miss_builds_once_and_persists
    [OF h1 h2 h3, of ex_env ?a "PyModel ''model {}''" ?fs1 "ex_params ''another model''"]
  note fail = cache_miss_builds_once_and_persists [OF h1 h2 h3, of ex_env "ex_params []"]
  from inst h4 h5 have first: "StanModel ex_env ?a (Some ''m.pkl'') ?w =
      (Inr (PyModel ''model {}''),
       ?w\<lparr>disk := ?fs1,
           trace := trace ?w @ [EvExists ''m.pkl'', EvBuild (stan_model_kwargs ?a),
                               EvSave ''m.pkl'' (PyModel ''model {}'')]\<rparr>)"
    by blast
  from inst h4 h5 rt have second:
    "fst (StanModel ex_env (ex_params ''another model'') (Some ''m.pkl'')
         (snd (StanModel ex_env ?a (Some ''m.pkl'') ?w))) = Inr (PyModel ''model {}'')"
    "new_events (snd (StanModel ex_env ?a (Some ''m.pkl'') ?w))
        (snd (StanModel ex_env (ex_params ''another model'') (Some ''m.pkl'')
           (snd (StanModel ex_env ?a (Some ''m.pkl'') ?w))))
       = [EvExists ''m.pkl'', EvRead ''m.pkl'']"
    by blast+
  from fail have "new_events ?w (snd (StanModel ex_env (ex_params []) (Some ''m.pkl'') ?w))
      = [EvExists ''m.pkl'', EvBuild (stan_model_kwargs (ex_params []))]"
    by (simp add: h6)
  then have third: "trace (snd (StanModel ex_env (ex_params []) (Some ''m.pkl'') ?w))
      = [EvExists ''m.pkl'', EvBuild (stan_model_kwargs (ex_params []))]"
    by (simp add: new_events_def t)
  have "fst (StanModel ex_env ?a (Some ''m.pkl'') ?w) = Inr (PyModel ''model {}'')"
    and "trace (snd (StanModel ex_env ?a (Some ''m.pkl'') ?w))
       = [EvExists ''m.pkl'', EvBuild (stan_model_kwargs ?a),
          EvSave ''m.pkl'' (PyModel ''model {}'')]"
    and "nodes (disk (snd (StanModel ex_env ?a (Some ''m.pkl'') ?w))) ''m.pkl''
       = Some (File ''Mmodel {}'')"
    by (simp_all add: first t write_file_def)
  with h3 second third show ?thesis by blast
qed

subsection \<open>C3: errors of the cache probe\<close>

text \<open>
  Claim C3. With \<^verbatim>\<open>pystan\<close> importable and an existing \<^verbatim>\<open>cache_path\<close> whose \<^verbatim>\<open>read\<close> raises:
  an exception that is neither an \<^verbatim>\<open>OSError\<close> nor a \<^verbatim>\<open>TypeError\<close> is the outcome of
  \<^verbatim>\<open>StanModel\<close>, with nothing built and nothing written; an \<^verbatim>\<open>OSError\<close> or a
  \<^verbatim>\<open>TypeError\<close> is caught, the builder is called exactly once, \<^verbatim>\<open>save\<close> is called exactly
  once on the object of the builder (and not at all when the builder raises), and when the
  builder and \<^verbatim>\<open>save\<close> return, the new object is returned and the cache file is
  overwritten by that one \<^verbatim>\<open>save\<close>.
\<close>

theorem cache_probe_error_policy:
  assumes "importable w ''pystan''"
    and "os_path_exists (disk w) p"
    and "read E (disk w) p ''rb'' True = Inl e"
  shows "(\<not> (isinstance_OSError e \<or> isinstance_TypeError e) \<longrightarrow>
            StanModel E a (Some p) w = (Inl e, w\<lparr>trace := trace w @ [EvExists p, EvRead p]\<rparr>))
       \<and> (isinstance_OSError e \<or> isinstance_TypeError e \<longrightarrow>
            filter is_build (new_events w (snd (StanModel E a (Some p) w)))
              = [EvBuild (stan_model_kwargs a)]
            \<and> filter is_save (new_events w (snd (StanModel E a (Some p) w)))
              = (case pystan_StanModel E (stan_model_kwargs a) of
                   Inl e0 \<Rightarrow> [] | Inr m0 \<Rightarrow> [EvSave p m0])
            \<and> (pystan_StanModel E (stan_model_kwargs a) = Inr m
                 \<and> save E (disk w) p m ''wb'' True [] = (Inr (), fs1) \<longrightarrow>
               StanModel E a (Some p) w =
                 (Inr m, w\<lparr>disk := fs1,
                           trace := trace w @ [EvExists p, EvRead p,
                                               EvBuild (stan_model_kwargs a), EvSave p m]\<rparr>)))"
proof -
  from assms(2) have ne: "p \<noteq> []" by (simp add: os_path_exists_def)
  let ?w2 = "w\<lparr>trace := trace w @ [EvExists p, EvRead p]\<rparr>"
  have run: "StanModel E a (Some p) w =
      (if isinstance_OSError e \<or> isinstance_TypeError e
       then compile_and_cache E a (Some p) True ?w2 else (Inl e, ?w2))"
    using assms by (simp add: StanModel_def try_import_available log_event_def Let_def)
  have builds: "filter is_build (new_events w (snd (compile_and_cache E a (Some p) True ?w2)))
      = [EvBuild (stan_model_kwargs a)]
    \<and> filter is_save (new_events w (snd (compile_and_cache E a (Some p) True ?w2)))
      = (case pystan_StanModel E (stan_model_kwargs a) of
           Inl e0 \<Rightarrow> [] | Inr m0 \<Rightarrow> [EvSave p m0])"
  proof (cases "pystan_StanModel E (stan_model_kwargs a)")
    case (Inl e0)
    then show ?thesis
      by (simp add: compile_and_cache_build_error new_events_def)
  next
    case (Inr m0)
    obtain r0 fs0 where "save E (disk ?w2) p m0 ''wb'' True [] = (r0, fs0)"
      by (cases "save E (disk ?w2) p m0 ''wb'' True []")
    with Inr ne show ?thesis
      by (simp add: compile_and_cache_saved new_events_def)
  qed
  have saved: "pystan_StanModel E (stan_model_kwargs a) = Inr m \<Longrightarrow>
      save E (disk w) p m ''wb'' True [] = (Inr (), fs1) \<Longrightarrow>
      compile_and_cache E a (Some p) True ?w2 =
        (Inr m, w\<lparr>disk := fs1,
                  trace := trace w @ [EvExists p, EvRead p,
                                      EvBuild (stan_model_kwargs a), EvSave p m]\<rparr>)"
    using ne by (simp add: compile_and_cache_saved)
  show ?thesis
    using run builds saved by simp
qed

text \<open>
  Witness of C3: a \<^verbatim>\<open>m.pkl\<close> that the unpickler refuses aborts the call with
  \<^verbatim>\<open>UnpicklingError\<close>; a \<^verbatim>\<open>m.gz\<close> that gzip refuses (\<^verbatim>\<open>BadGzipFile\<close>, an \<^verbatim>\<open>OSError\<close>) is
  rebuilt and overwritten.
\<close>

theorem cache_probe_error_policy_witness:
  "read ex_env (disk (ex_world [(''m.pkl'', File ''junk'')] True)) ''m.pkl'' ''rb'' True
       = Inl UnpicklingError
   \<and> StanModel ex_env (ex_params ''model {}'') (Some ''m.pkl'')
         (ex_world [(''m.pkl'', File ''junk'')] True)
       = (Inl UnpicklingError,
          (ex_world [(''m.pkl'', File ''junk'')] True)
            \<lparr>trace := [EvExists ''m.pkl'', EvRead ''m.pkl'']\<rparr>)
   \<and> read ex_env (disk (ex_world [(''m.gz'', File ''junk'')] True)) ''m.gz'' ''rb'' True
       = Inl BadGzipFile
   \<and> StanModel ex_env (ex_params ''model {}'') (Some ''m.gz'')
         (ex_world [(''m.gz'', File ''junk'')] True)
       = (Inr (PyModel ''model {}''),
          (ex_world [(''m.gz'', File ''junk'')] True)
            \<lparr>disk := write_file (disk (ex_world [(''m.gz'', File ''junk'')] True)) ''m.gz''
                       ''GZ:Mmodel {}'',
             trace := [EvExists ''m.gz'', EvRead ''m.gz'',
                       EvBuild (stan_model_kwargs (ex_params ''model {}'')),
                       EvSave ''m.gz'' (PyModel ''model {}'')]\<rparr>)"
proof -
  let ?wp = "ex_world [(''m.pkl'', File ''junk'')] True"
  let ?wg = "ex_world [(''m.gz'', File ''junk'')] True"
  let ?a = "ex_params ''model {}''"
  have av: "importable ?wp ''pystan''" "importable ?wg ''pystan''"
    by (simp_all add: ex_defs)
  have ex: "os_path_exists (disk ?wp) ''m.pkl''" "os_path_exists (disk ?wg) ''m.gz''"
    by (simp_all add: io_defs ex_defs)
  have rp: "read ex_env (disk ?wp) ''m.pkl'' ''rb'' True = Inl UnpicklingError"
    by (simp add: io_defs ex_defs splitext_examples)
  have rg: "read ex_env (disk ?wg) ''m.gz'' ''rb'' True = Inl BadGzipFile"
    by (simp add: io_defs ex_defs splitext_examples)
  have b: "pystan_StanModel ex_env (stan_model_kwargs ?a) = Inr (PyModel ''model {}'')"
    by (simp add: ex_defs)
  have s: "save ex_env (disk ?wg) ''m.gz'' (PyModel ''model {}'') ''wb'' True []
      = (Inr (), write_file (disk ?wg) ''m.gz'' ''GZ:Mmodel {}'')"
    by (simp add: io_defs ex_defs splitext_examples)
  have t: "trace ?wp = []" "trace ?wg = []" by (simp_all add: ex_defs)
  from cache_probe_error_policy [OF av(1) ex(1) rp, of ?a]
    cache_probe_error_policy [OF av(2) ex(2) rg, of ?a "PyModel ''model {}''"
      "write_file (disk ?wg) ''m.gz'' ''GZ:Mmodel {}''"]
  show ?thesis
    using rp rg b s t by simp
qed

subsection \<open>C4: round trip\<close>

text \<open>
  Claim C4. Round trip: for every path (so for every extension of the table and for every
  other one) and every object, when the libraries round-trip and the path may be read, a
  \<^verbatim>\<open>save(path, obj)\<close> that returns is followed by a \<^verbatim>\<open>read(path)\<close> that returns the object,
  with mode and pickling at their defaults.
\<close>

theorem save_then_read_returns_object:
  assumes "pickle_roundtrip E" and "codec_roundtrip E" and "readable fs p"
    and "save E fs p obj ''wb'' True [] = (Inr (), fs1)"
  shows "read E fs1 p ''rb'' True = Inr obj"
  using save_read_roundtrip [OF assms] by simp

text \<open>Witness of C4: one object through each module of the table and through the default.\<close>

theorem save_then_read_returns_object_witness:
  "read ex_env (snd (save ex_env (ex_disk []) ''m.gz'' (PyModel ''model {}'') ''wb'' True []))
     ''m.gz'' ''rb'' True = Inr (PyModel ''model {}'')
   \<and> read ex_env (snd (save ex_env (ex_disk []) ''m.xz'' (PyStr ''abc'') ''wb'' True []))
     ''m.xz'' ''rb'' True = Inr (PyStr ''abc'')
   \<and> read ex_env (snd (save ex_env (ex_disk []) ''m.bz2'' (PyBool True) ''wb'' True []))
     ''m.bz2'' ''rb'' True = Inr (PyBool True)
   \<and> read ex_env (snd (save ex_env (ex_disk []) ''m.pkl'' PyNone ''wb'' True []))
     ''m.pkl'' ''rb'' True = Inr PyNone
   \<and> read ex_env (snd (save ex_env (ex_disk []) ''m.dat'' (PyBytes ''xyz'') ''wb'' True []))
     ''m.dat'' ''rb'' True = Inr (PyBytes ''xyz'')"
proof -
  have r: "readable (ex_disk []) q" for q by (simp add: ex_disk_def)
  have ok: "fst (save ex_env (ex_disk []) ''m.gz'' (PyModel ''model {}'') ''wb'' True []) = Inr ()"
    "fst (save ex_env (ex_disk []) ''m.xz'' (PyStr ''abc'') ''wb'' True []) = Inr ()"
    "fst (save ex_env (ex_disk []) ''m.bz2'' (PyBool True) ''wb'' True []) = Inr ()"
    "fst (save ex_env (ex_disk []) ''m.pkl'' PyNone ''wb'' True []) = Inr ()"
    "fst (save ex_env (ex_disk []) ''m.dat'' (PyBytes ''xyz'') ''wb'' True []) = Inr ()"
    by (simp_all add: io_defs ex_defs splitext_examples)
  have law: "fst (save ex_env (ex_disk []) q obj ''wb'' True []) = Inr () \<Longrightarrow>
      read ex_env (snd (save ex_env (ex_disk []) q obj ''wb'' True [])) q ''rb'' True = Inr obj"
    for q obj
    using save_then_read_returns_object
      [OF ex_env_pickle_roundtrip ex_env_codec_roundtrip r,
       of q obj "snd (save ex_env (ex_disk []) q obj ''wb'' True [])"]
    by (metis prod.collapse)
  from ok show ?thesis
    by (simp add: law)
qed

subsection \<open>C5: extension table\<close>

text \<open>
  Claim C5. For every path, \<^verbatim>\<open>read\<close> and \<^verbatim>\<open>save\<close> are \<^verbatim>\<open>_read\<close> and \<^verbatim>\<open>_save\<close> on the
  module that the table of the specification gives for the extension of the path, compared
  as a string, character by character: gzip, lzma, bzip2, or the raw-bytes module for
  \<^verbatim>\<open>.pkl\<close>, \<^verbatim>\<open>.pickle\<close> and every extension that the table does not hold; serialization is
  forced for \<^verbatim>\<open>.pkl\<close> and \<^verbatim>\<open>.pickle\<close> and follows the argument \<^verbatim>\<open>pickling\<close> otherwise.
\<close>

theorem extension_selects_codec:
  "read E fs p mode pickling =
     underscore_read E fs p (spec_codec (snd (splitext p)))
       (if spec_forced (snd (splitext p)) then ''rb'' else mode)
       (if spec_forced (snd (splitext p)) then True else pickling)
   \<and> save E fs p obj mode pickling kw =
     underscore_save E fs p obj (spec_codec (snd (splitext p)))
       (if spec_forced (snd (splitext p)) then ''wb'' else mode)
       (if spec_forced (snd (splitext p)) then True else pickling) kw"
  by (simp add: read_def save_def spec_codec_def spec_forced_def dict_get_def ext_dict_def Let_def)

text \<open>
  Instances of C5: \<^verbatim>\<open>m.gz\<close> is read through gzip; \<^verbatim>\<open>m.GZ\<close> is not (the raw-bytes module
  hands the gzip file to the unpickler); a file named \<^verbatim>\<open>.gz\<close> has no extension and is read
  as raw bytes.
\<close>

theorem extension_selects_codec_witness:
  "read ex_env (ex_disk [(''m.gz'', File ''GZ:Mabc'')]) ''m.gz'' ''rb'' True = Inr (PyModel ''abc'')
   \<and> read ex_env (ex_disk [(''m.GZ'', File ''GZ:Mabc'')]) ''m.GZ'' ''rb'' True = Inl UnpicklingError
   \<and> read ex_env (ex_disk [(''.gz'', File ''Mabc'')]) ''.gz'' ''rb'' True = Inr (PyModel ''abc'')"
  using extension_selects_codec [of ex_env "ex_disk [(''m.gz'', File ''GZ:Mabc'')]" "''m.gz'' " "''rb''" True]
    extension_selects_codec [of ex_env "ex_disk [(''m.GZ'', File ''GZ:Mabc'')]" "''m.GZ'' " "''rb''" True]
    extension_selects_codec [of ex_env "ex_disk [(''.gz'', File ''Mabc'')]" "''.gz'' " "''rb''" True]
  by (simp add: spec_codec_def spec_forced_def splitext_examples underscore_read_def
      os_open_read_def ex_defs)

subsection \<open>C6: forced serialization\<close>

text \<open>
  Claim C6. For a path whose extension is \<^verbatim>\<open>.pkl\<close> or \<^verbatim>\<open>.pickle\<close>, \<^verbatim>\<open>read\<close> always
  deserializes and \<^verbatim>\<open>save\<close> always serializes, through the raw-bytes module in binary
  mode, whatever the caller passes as \<^verbatim>\<open>pickling\<close> (and as \<^verbatim>\<open>mode\<close>).
\<close>

theorem pickle_extensions_force_serialization:
  assumes "snd (splitext p) = ''.pkl'' \<or> snd (splitext p) = ''.pickle''"
  shows "read E fs p mode pickling = underscore_read E fs p Io ''rb'' True
       \<and> save E fs p obj mode pickling kw = underscore_save E fs p obj Io ''wb'' True kw
       \<and> read E fs p mode False = read E fs p mode True
       \<and> save E fs p obj mode False kw = save E fs p obj mode True kw"
  using assms
  by (auto simp: read_def save_def dict_get_def ext_dict_def Let_def)

text \<open>Witness of C6: \<^verbatim>\<open>m.pkl\<close> with \<^verbatim>\<open>pickling=False\<close> and a text mode.\<close>

theorem pickle_extensions_force_serialization_witness:
  "snd (splitext ''m.pkl'') = ''.pkl''
   \<and> read ex_env (ex_disk [(''m.pkl'', File ''Mabc'')]) ''m.pkl'' ''rt'' False = Inr (PyModel ''abc'')
   \<and> fst (save ex_env (ex_disk []) ''m.pkl'' (PyModel ''abc'') ''wt'' False []) = Inr ()
   \<and> nodes (snd (save ex_env (ex_disk []) ''m.pkl'' (PyModel ''abc'') ''wt'' False [])) ''m.pkl''
       = Some (File ''Mabc'')"
  using pickle_extensions_force_serialization
    [where p = "''m.pkl''" and E = ex_env and fs = "ex_disk [(''m.pkl'', File ''Mabc'')]"
       and mode = "''rt''" and pickling = False]
    pickle_extensions_force_serialization
    [where p = "''m.pkl''" and E = ex_env and fs = "ex_disk []" and obj = "PyModel ''abc''"
       and mode = "''wt''" and pickling = False and kw = "[]"]
  by (simp add: splitext_examples underscore_read_def underscore_save_def
      os_open_read_def os_open_write_def write_file_def ex_defs)

subsection \<open>C7: omitted cache path\<close>

text \<open>
  Claim C7. With \<^verbatim>\<open>cache_path\<close> omitted (\<^verbatim>\<open>None\<close>), a call of \<^verbatim>\<open>StanModel\<close> makes no
  file access of its own (no existence test, no \<^verbatim>\<open>read\<close>, no \<^verbatim>\<open>save\<close>) and leaves the
  disk as it was, in every world; and when \<^verbatim>\<open>pystan\<close> can be imported, it calls the builder
  exactly once, on the forwarded keyword arguments, and gives back what the builder gives
  back (its object or its exception).
\<close>

theorem omitted_cache_path_touches_no_file:
  "filter is_file_access (new_events w (snd (StanModel E a None w))) = []
   \<and> disk (snd (StanModel E a None w)) = disk w
   \<and> (importable w ''pystan'' \<longrightarrow>
        StanModel E a None w =
          (pystan_StanModel E (stan_model_kwargs a),
           w\<lparr>trace := trace w @ [EvBuild (stan_model_kwargs a)]\<rparr>))"
proof -
  obtain r w0 pre where
    rw: "try_import_pystan E w = (r, w0)" and d: "disk w0 = disk w"
    and t: "trace w0 = trace w @ pre" and pre: "pre = [] \<or> pre = [EvPip [''install'', ''pystan'']]"
    by (rule try_import_effect)
  have general: "filter is_file_access (new_events w (snd (StanModel E a None w))) = []
     \<and> disk (snd (StanModel E a None w)) = disk w"
  proof (cases r)
    case (Inl e)
    with rw d t pre show ?thesis
      by (auto simp: StanModel_def new_events_def)
  next
    case (Inr b)
    show ?thesis
    proof (cases b)
      case True
      with Inr rw d t pre show ?thesis
        by (auto simp: StanModel_def new_events_def compile_and_cache_no_path)
    next
      case False
      with Inr rw d t pre show ?thesis
        by (auto simp: StanModel_def new_events_def compile_and_cache_unbound)
    qed
  qed
  have "importable w ''pystan'' \<Longrightarrow>
        StanModel E a None w =
          (pystan_StanModel E (stan_model_kwargs a),
           w\<lparr>trace := trace w @ [EvBuild (stan_model_kwargs a)]\<rparr>)"
    by (simp add: StanModel_def try_import_available compile_and_cache_no_path)
  with general show ?thesis by blast
qed

text \<open>Witness of C7: a call without cache path in a world where \<^verbatim>\<open>pystan\<close> is present.\<close>

theorem omitted_cache_path_touches_no_file_witness:
  "importable (ex_world [] True) ''pystan''
   \<and> StanModel ex_env (ex_params ''model {}'') None (ex_world [] True) =
       (Inr (PyModel ''model {}''),
        (ex_world [] True)\<lparr>trace := [EvBuild (stan_model_kwargs (ex_params ''model {}''))]\<rparr>)"
  using omitted_cache_path_touches_no_file [of "ex_world [] True" ex_env "ex_params ''model {}''"]
  by (simp add: ex_defs)

subsection \<open>C8: builder failure\<close>

text \<open>
  Claim C8. When the builder raises on the forwarded arguments, then for every
  \<^verbatim>\<open>cache_path\<close> and every world \<^verbatim>\<open>StanModel\<close> leaves the disk as it was and never calls
  \<^verbatim>\<open>save\<close>; and whenever the run did call the builder, the exception of the builder is the
  outcome of \<^verbatim>\<open>StanModel\<close>.
\<close>

theorem builder_error_propagates_nothing_written:
  assumes "pystan_StanModel E (stan_model_kwargs a) = Inl e"
  shows "disk (snd (StanModel E a cp w)) = disk w
       \<and> filter is_save (new_events w (snd (StanModel E a cp w))) = []
       \<and> (filter is_build (new_events w (snd (StanModel E a cp w))) \<noteq> [] \<longrightarrow>
            fst (StanModel E a cp w) = Inl e)"
proof -
  obtain r w0 pre where
    rw: "try_import_pystan E w = (r, w0)" and d: "disk w0 = disk w"
    and t: "trace w0 = trace w @ pre" and pre: "pre = [] \<or> pre = [EvPip [''install'', ''pystan'']]"
    by (rule try_import_effect)
  note cc = compile_and_cache_build_error_any [OF assms]
  show ?thesis
  proof (cases r)
    case (Inl e0)
    with rw d t pre show ?thesis
      by (auto simp: StanModel_def new_events_def)
  next
    case (Inr b)
    with rw d t pre show ?thesis
      by (auto simp: StanModel_def cc log_event_def new_events_def Let_def
          split: sum.splits option.splits)
  qed
qed

text \<open>
  Witness of C8: an unreadable \<^verbatim>\<open>m.gz\<close> sends the call to the builder, the builder refuses
  the empty model code, and the file is as it was.
\<close>

theorem builder_error_propagates_nothing_written_witness:
  "pystan_StanModel ex_env (stan_model_kwargs (ex_params [])) = Inl ValueError
   \<and> fst (StanModel ex_env (ex_params []) (Some ''m.gz'') (ex_world [(''m.gz'', File ''junk'')] True))
       = Inl ValueError
   \<and> disk (snd (StanModel ex_env (ex_params []) (Some ''m.gz'')
         (ex_world [(''m.gz'', File ''junk'')] True)))
       = disk (ex_world [(''m.gz'', File ''junk'')] True)"
proof -
  let ?w = "ex_world [(''m.gz'', File ''junk'')] True"
  have h: "pystan_StanModel ex_env (stan_model_kwargs (ex_params [])) = Inl ValueError"
    by (simp add: ex_defs)
  have b: "filter is_build (new_events ?w (snd (StanModel ex_env (ex_params []) (Some ''m.gz'') ?w)))
      \<noteq> []"
    by (simp add: run_defs io_defs ex_defs splitext_examples)
  from builder_error_propagates_nothing_written [OF h, of "Some ''m.gz''" ?w] b h
  show ?thesis by simp
qed

subsection \<open>C9: installer fallback\<close>

text \<open>
  Claim C9 (what the code does where the claim fails). When \<^verbatim>\<open>import pystan\<close> fails and
  \<^verbatim>\<open>install\<close> returns, the local name \<^verbatim>\<open>pystan\<close> is still unbound: with no cache path
  \<^verbatim>\<open>StanModel\<close> ends in \<^verbatim>\<open>UnboundLocalError\<close>, and for no \<^verbatim>\<open>cache_path\<close> is the builder
  called, whether the installation made \<^verbatim>\<open>pystan\<close> importable or not.
\<close>

theorem unavailable_builder_is_never_invoked:
  assumes "\<not> importable w ''pystan''"
    and "install E ''pystan'' w = (Inr (), w1)"
  shows "StanModel E a None w = (Inl UnboundLocalError, w1)
       \<and> filter is_build (new_events w (snd (StanModel E a cp w))) = []"
proof -
  have ti: "try_import_pystan E w = (Inr False, w1)"
    using assms by (simp add: try_import_pystan_def)
  have d: "disk w1 = disk w"
    using install_disk [of E "''pystan''" w] assms(2) by simp
  have "trace w1 = trace w @ [] \<or> trace w1 = trace w @ [EvPip [''install'', ''pystan'']]"
    using install_trace [of E "''pystan''" w] assms(2) by simp
  then obtain pre where t: "trace w1 = trace w @ pre"
    and pre: "pre = [] \<or> pre = [EvPip [''install'', ''pystan'']]"
    by blast
  have first: "StanModel E a None w = (Inl UnboundLocalError, w1)"
    by (simp add: StanModel_def ti compile_and_cache_unbound)
  have "filter is_build (new_events w (snd (StanModel E a cp w))) = []"
    using t pre
    by (auto simp: StanModel_def ti compile_and_cache_unbound log_event_def new_events_def Let_def
        split: sum.splits option.splits)
  with first show ?thesis by simp
qed

text \<open>
  The failing input of C9: \<^verbatim>\<open>pystan\<close> is missing, \<^verbatim>\<open>pip\<close> installs it, and the call still
  ends in \<^verbatim>\<open>UnboundLocalError\<close>; the only event is the run of \<^verbatim>\<open>pip\<close>.
\<close>

theorem unavailable_builder_is_never_invoked_witness:
  "\<not> importable (ex_world [] False) ''pystan''
   \<and> fst (install ex_env ''pystan'' (ex_world [] False)) = Inr ()
   \<and> importable (snd (install ex_env ''pystan'' (ex_world [] False))) ''pystan''
   \<and> StanModel ex_env (ex_params ''model {}'') None (ex_world [] False) =
       (Inl UnboundLocalError, snd (install ex_env ''pystan'' (ex_world [] False)))
   \<and> trace (snd (StanModel ex_env (ex_params ''model {}'') None (ex_world [] False)))
       = [EvPip [''install'', ''pystan'']]"
proof -
  let ?w = "ex_world [] False"
  have h1: "\<not> importable ?w ''pystan''" by (simp add: ex_defs)
  have i: "fst (install ex_env ''pystan'' ?w) = Inr ()"
    by (simp add: install_def run_pip_def ex_defs)
  then have h2: "install ex_env ''pystan'' ?w = (Inr (), snd (install ex_env ''pystan'' ?w))"
    by (metis prod.collapse)
  have ok: "importable (snd (install ex_env ''pystan'' ?w)) ''pystan''"
    by (simp add: install_def run_pip_def log_event_def ex_defs)
  have t: "trace (snd (install ex_env ''pystan'' ?w)) = [EvPip [''install'', ''pystan'']]"
    by (simp add: install_def run_pip_def log_event_def ex_defs)
  from unavailable_builder_is_never_invoked [OF h1 h2, of "ex_params ''model {}''"]
  show ?thesis
    using h1 i ok t by simp
qed

subsection \<open>C10: empty cache path\<close>

text \<open>
  Claim C10. With \<^verbatim>\<open>cache_path\<close> the empty string, the existence test is made and fails,
  so nothing is read; the builder is called once; and the guard \<^verbatim>\<open>if cache_path:\<close> skips
  \<^verbatim>\<open>save\<close>, so the disk is as it was although a \<^verbatim>\<open>cache_path\<close> other than \<^verbatim>\<open>None\<close> was
  given.
\<close>

theorem empty_cache_path_builds_and_saves_nothing:
  assumes "importable w ''pystan''"
  shows "StanModel E a (Some []) w =
          (pystan_StanModel E (stan_model_kwargs a),
           w\<lparr>trace := trace w @ [EvExists [], EvBuild (stan_model_kwargs a)]\<rparr>)"
  using assms by (rule StanModel_empty_path)

text \<open>Witness of C10: the call \<^verbatim>\<open>StanModel(model_code=..., cache_path="")\<close> on an empty disk.\<close>

theorem empty_cache_path_builds_and_saves_nothing_witness:
  "importable (ex_world [] True) ''pystan''
   \<and> StanModel ex_env (ex_params ''model {}'') (Some []) (ex_world [] True) =
       (Inr (PyModel ''model {}''),
        (ex_world [] True)\<lparr>trace := [EvExists [],
                                      EvBuild (stan_model_kwargs (ex_params ''model {}''))]\<rparr>)"
  using empty_cache_path_builds_and_saves_nothing
    [of "ex_world [] True" ex_env "ex_params ''model {}''"]
  by (simp add: ex_defs)

end
